theory Spec2Isabelle
  imports Complex_Main "HOL-Library.AList"
begin

section \<open>Python values, errors and sequence operations\<close>

text \<open>
  The exceptions that the modelled part of \<^verbatim>\<open>dcmmeta.py\<close> can raise. A function that
  can raise returns \<open>py_error + 'a\<close>, with \<open>Inl\<close> for the exception.
\<close>

datatype py_error =
    ValueError | KeyError | TypeError | IndexError | AttributeError
  | ZeroDivisionError | UnboundLocalError | InvalidExtensionError | AssertionError

text \<open>
  Meta data values as they come out of the JSON document: null, integers, strings and
  lists. On these Python's \<^verbatim>\<open>==\<close> is structural equality. Floating point numbers, booleans
  and nested objects are left out of the value type.
\<close>

datatype val = VNone | VInt int | VStr string | VList "val list"

definition bindE :: "py_error + 'a \<Rightarrow> ('a \<Rightarrow> py_error + 'b) \<Rightarrow> py_error + 'b" where
  "bindE m f = (case m of Inl e \<Rightarrow> Inl e | Inr x \<Rightarrow> f x)"

fun foldE :: "('a \<Rightarrow> 's \<Rightarrow> py_error + 's) \<Rightarrow> 'a list \<Rightarrow> 's \<Rightarrow> py_error + 's" where
  "foldE f [] s = Inr s"
| "foldE f (x # xs) s = bindE (f x s) (foldE f xs)"

text \<open>\<^verbatim>\<open>xs[i]\<close>: negative indices count from the end, out of range raises IndexError.\<close>

definition py_index :: "'a list \<Rightarrow> int \<Rightarrow> py_error + 'a" where
  "py_index xs i =
     (if 0 \<le> i \<and> i < int (length xs) then Inr (xs ! nat i)
      else if i < 0 \<and> - int (length xs) \<le> i then Inr (xs ! nat (int (length xs) + i))
      else Inl IndexError)"

text \<open>A slice bound of a slice with positive step is clamped into \<open>[0, len]\<close>.\<close>

definition slice_bound :: "nat \<Rightarrow> int \<Rightarrow> nat" where
  "slice_bound n i = (if i < 0 then nat (max 0 (int n + i)) else min (nat i) n)"

text \<open>\<^verbatim>\<open>xs[start:stop]\<close>, either bound may be omitted (\<open>None\<close>).\<close>

definition py_slice :: "'a list \<Rightarrow> int option \<Rightarrow> int option \<Rightarrow> 'a list" where
  "py_slice xs start stop =
     (let n = length xs;
          a = (case start of None \<Rightarrow> 0 | Some i \<Rightarrow> slice_bound n i);
          b = (case stop of None \<Rightarrow> n | Some j \<Rightarrow> slice_bound n j)
      in take (b - a) (drop a xs))"

text \<open>Every \<open>k\<close>-th element of a list, from its first one (\<open>0 < k\<close>).\<close>

definition every_nth :: "'a list \<Rightarrow> nat \<Rightarrow> 'a list" where
  "every_nth ys k = map (\<lambda>j. ys ! (j * k)) [0..<(length ys + k - 1) div k]"

text \<open>
  \<^verbatim>\<open>xs[start::step]\<close>. A step of \<open>None\<close> is a step of one, a step of zero raises
  ValueError, a negative step walks from \<open>start\<close> (default: the last element) down to the
  first element.
\<close>

definition py_stride :: "'a list \<Rightarrow> int option \<Rightarrow> int option \<Rightarrow> py_error + 'a list" where
  "py_stride xs start step =
     (case step of
        None \<Rightarrow> Inr (py_slice xs start None)
      | Some k \<Rightarrow>
          if k = 0 then Inl ValueError
          else if 0 < k then Inr (every_nth (py_slice xs start None) (nat k))
          else
            (let n = int (length xs);
                 s = (case start of
                        None \<Rightarrow> n - 1
                      | Some i \<Rightarrow> if i < 0 then max (- 1) (n + i) else min i (n - 1));
                 cnt = (if s < 0 then 0 else nat (s div (- k)) + 1)
             in Inr (map (\<lambda>j. xs ! nat (s + int j * k)) [0..<cnt])))"

text \<open>The same operations on a value: lists and strings are sequences, the rest is not.\<close>

definition val_len :: "val \<Rightarrow> py_error + int" where
  "val_len v = (case v of VList xs \<Rightarrow> Inr (int (length xs))
                        | VStr s \<Rightarrow> Inr (int (length s))
                        | _ \<Rightarrow> Inl TypeError)"

text \<open>Iterating over a value; a string yields its characters as one-character strings.\<close>

definition val_items :: "val \<Rightarrow> py_error + val list" where
  "val_items v = (case v of VList xs \<Rightarrow> Inr xs
                          | VStr s \<Rightarrow> Inr (map (\<lambda>c. VStr [c]) s)
                          | _ \<Rightarrow> Inl TypeError)"

definition val_index :: "val \<Rightarrow> int \<Rightarrow> py_error + val" where
  "val_index v i = (case v of VList xs \<Rightarrow> py_index xs i
                            | VStr s \<Rightarrow> bindE (py_index s i) (\<lambda>c. Inr (VStr [c]))
                            | _ \<Rightarrow> Inl TypeError)"

definition val_slice :: "val \<Rightarrow> int option \<Rightarrow> int option \<Rightarrow> py_error + val" where
  "val_slice v start stop = (case v of VList xs \<Rightarrow> Inr (VList (py_slice xs start stop))
                                     | VStr s \<Rightarrow> Inr (VStr (py_slice s start stop))
                                     | _ \<Rightarrow> Inl TypeError)"

definition val_stride :: "val \<Rightarrow> int option \<Rightarrow> int option \<Rightarrow> py_error + val" where
  "val_stride v start step =
     (case v of VList xs \<Rightarrow> bindE (py_stride xs start step) (\<lambda>ys. Inr (VList ys))
              | VStr s \<Rightarrow> bindE (py_stride s start step) (\<lambda>t. Inr (VStr t))
              | _ \<Rightarrow> Inl TypeError)"

text \<open>\<^verbatim>\<open>local_vals.extend(other_vals)\<close>: only a list has \<^verbatim>\<open>extend\<close>; the argument is iterated.\<close>

definition val_extend :: "val \<Rightarrow> val \<Rightarrow> py_error + val" where
  "val_extend v w = (case v of VList xs \<Rightarrow> bindE (val_items w) (\<lambda>ys. Inr (VList (xs @ ys)))
                             | _ \<Rightarrow> Inl AttributeError)"

section \<open>is_constant and is_repeating\<close>

text \<open>The elements of the block of length \<open>p\<close> that starts at index \<open>start\<close>.\<close>

definition block :: "'a list \<Rightarrow> nat \<Rightarrow> nat \<Rightarrow> 'a list" where
  "block xs start p = take p (drop start xs)"

definition is_constant :: "val \<Rightarrow> int option \<Rightarrow> py_error + bool" where
  "is_constant sequence period =
     (case period of
        None \<Rightarrow> bindE (val_items sequence) (\<lambda>xs. Inr (list_all (\<lambda>v. v = xs ! 0) xs))
      | Some p \<Rightarrow>
          if p \<le> 1 then Inl ValueError
          else bindE (val_len sequence) (\<lambda>seq_len.
            if seq_len mod p \<noteq> 0 then Inl ValueError
            else bindE (val_items sequence) (\<lambda>xs.
              Inr (list_all
                    (\<lambda>period_idx. list_all (\<lambda>v. v = xs ! (period_idx * nat p))
                                           (block xs (period_idx * nat p) (nat p)))
                    [0..<nat (seq_len div p)]))))"

definition is_repeating :: "val \<Rightarrow> int \<Rightarrow> py_error + bool" where
  "is_repeating sequence period =
     bindE (val_len sequence) (\<lambda>seq_len.
       if period \<le> 1 \<or> period \<ge> seq_len then Inl ValueError
       else if seq_len mod period \<noteq> 0 then Inl ValueError
       else bindE (val_items sequence) (\<lambda>xs.
         Inr (list_all
               (\<lambda>period_idx. block xs (period_idx * nat period) (nat period)
                               = block xs 0 (nat period))
               [1..<nat (seq_len div period)])))"

section \<open>The extension: classifications, shape and the classified dictionaries\<close>

datatype base = Global | Time | Vector

datatype sub = Const | Samples | Slices

type_synonym classification = "base \<times> sub"

text \<open>
  A classified dictionary in insertion order (the source uses \<^verbatim>\<open>OrderedDict\<close>): assigning
  to a present key keeps its place, a new key goes to the end.
\<close>

type_synonym meta_dict = "(string \<times> val) list"

text \<open>
  The \<^verbatim>\<open>_content\<close> dictionary. The four \<^verbatim>\<open>dcmmeta_*\<close> entries are fields; \<open>content\<close> holds
  the entries \<^verbatim>\<open>'global'\<close>, \<^verbatim>\<open>'time'\<close> and \<^verbatim>\<open>'vector'\<close>, each of which may be missing,
  and so may each of the sub-dictionaries of a present one. The affine is a nested list of
  numbers, which the modelled operations only store and hand on.
\<close>

record ext =
  affine :: "real list list"
  slice_dim :: "int option"
  shape :: "int list"
  version :: real
  content :: "base \<Rightarrow> (sub \<Rightarrow> meta_dict option) option"

definition meta_version :: real where
  "meta_version = 1 / 2"

definition slice_normal :: "ext \<Rightarrow> py_error + real list option" where
  "slice_normal s =
     (case slice_dim s of
        None \<Rightarrow> Inr None
      | Some d \<Rightarrow> bindE (py_index (affine s) d) (\<lambda>row. Inr (Some (py_slice row None (Some 3)))))"

definition n_slices :: "ext \<Rightarrow> py_error + int option" where
  "n_slices s =
     (case slice_dim s of
        None \<Rightarrow> Inr None
      | Some d \<Rightarrow> bindE (py_index (shape s) d) (\<lambda>n. Inr (Some n)))"

definition classifications :: "classification list" where
  "classifications =
     [(Global, Const), (Global, Slices), (Time, Samples), (Time, Slices),
      (Vector, Samples), (Vector, Slices)]"

definition get_valid_classes :: "ext \<Rightarrow> py_error + classification list" where
  "get_valid_classes s =
     (let n_dims = length (shape s)
      in if n_dims = 3 then Inr (take 2 classifications)
         else if n_dims = 4 then Inr (take 4 classifications)
         else if n_dims = 5 then
           (if shape s ! 3 \<noteq> 1 then Inr classifications
            else Inr (take 2 classifications @ drop 4 classifications))
         else Inl ValueError)"

text \<open>
  \<^verbatim>\<open>get_multiplicity\<close>. The argument may be \<open>None\<close> (the classification of an absent key),
  which is in no list of valid classes. The reads \<open>shape ! 3\<close> and \<open>shape ! 4\<close> are in range
  where they happen: a time classification is valid only with four axes or more, a vector
  classification only with five.
\<close>

definition get_multiplicity :: "ext \<Rightarrow> classification option \<Rightarrow> py_error + int" where
  "get_multiplicity s classification =
     bindE (get_valid_classes s) (\<lambda>valid.
       case classification of
         None \<Rightarrow> Inl ValueError
       | Some (b, sb) \<Rightarrow>
           if (b, sb) \<notin> set valid then Inl ValueError
           else if sb = Slices then
             bindE (n_slices s) (\<lambda>ns.
               case ns of
                 None \<Rightarrow> Inr 0
               | Some n_vals \<Rightarrow>
                   if b = Vector then Inr (n_vals * shape s ! 3)
                   else if b = Global then Inr (n_vals * prod_list (drop 3 (shape s)))
                   else Inr n_vals)
           else if sb = Samples then
             (if b = Time then
                Inr (if length (shape s) = 5 then shape s ! 3 * shape s ! 4 else shape s ! 3)
              else if b = Vector then Inr (shape s ! 4)
              else Inr 1)
           else Inr 1)"

text \<open>\<^verbatim>\<open>base in self._content\<close>.\<close>

definition base_in :: "ext \<Rightarrow> base \<Rightarrow> bool" where
  "base_in s b = (content s b \<noteq> None)"

text \<open>\<^verbatim>\<open>self._content[base][sub]\<close>: KeyError when either level is missing.\<close>

definition get_class_dict :: "ext \<Rightarrow> classification \<Rightarrow> py_error + meta_dict" where
  "get_class_dict s c =
     (case content s (fst c) of
        None \<Rightarrow> Inl KeyError
      | Some bd \<Rightarrow> (case bd (snd c) of None \<Rightarrow> Inl KeyError | Some d \<Rightarrow> Inr d))"

text \<open>Replacing the dictionary of a classification whose base dictionary is present.\<close>

definition put_class_dict :: "ext \<Rightarrow> classification \<Rightarrow> meta_dict \<Rightarrow> ext" where
  "put_class_dict s c d =
     s\<lparr>content := (content s)(fst c := map_option (\<lambda>bd. bd(snd c \<mapsto> d)) (content s (fst c)))\<rparr>"

text \<open>\<^verbatim>\<open>self.get_class_dict(c)[key] = v\<close> and \<^verbatim>\<open>del self.get_class_dict(c)[key]\<close>.\<close>

definition set_item :: "ext \<Rightarrow> classification \<Rightarrow> string \<Rightarrow> val \<Rightarrow> py_error + ext" where
  "set_item s c key v =
     bindE (get_class_dict s c) (\<lambda>d. Inr (put_class_dict s c (AList.update key v d)))"

definition del_item :: "ext \<Rightarrow> classification \<Rightarrow> string \<Rightarrow> py_error + ext" where
  "del_item s c key =
     bindE (get_class_dict s c) (\<lambda>d.
       if map_of d key = None then Inl KeyError
       else Inr (put_class_dict s c (AList.delete key d)))"

text \<open>\<^verbatim>\<open>get_keys\<close>: the keys of the valid classifications, in their order.\<close>

fun get_keys_of :: "ext \<Rightarrow> classification list \<Rightarrow> py_error + string list" where
  "get_keys_of s [] = Inr []"
| "get_keys_of s (c # cs) =
     bindE (get_class_dict s c) (\<lambda>d.
       bindE (get_keys_of s cs) (\<lambda>ks. Inr (map fst d @ ks)))"

definition get_keys :: "ext \<Rightarrow> py_error + string list" where
  "get_keys s = bindE (get_valid_classes s) (get_keys_of s)"

text \<open>The loop of \<^verbatim>\<open>get_classification\<close>: the first class of the list whose dictionary has
  the key; a missing dictionary met before that raises KeyError.\<close>

fun find_class :: "ext \<Rightarrow> string \<Rightarrow> classification list \<Rightarrow> py_error + classification option" where
  "find_class s key [] = Inr None"
| "find_class s key (c # cs) =
     bindE (get_class_dict s c) (\<lambda>d.
       if map_of d key \<noteq> None then Inr (Some c) else find_class s key cs)"

definition get_classification :: "ext \<Rightarrow> string \<Rightarrow> py_error + classification option" where
  "get_classification s key = bindE (get_valid_classes s) (find_class s key)"

text \<open>\<^verbatim>\<open>d[key]\<close> on a dictionary.\<close>

definition dict_get :: "meta_dict \<Rightarrow> string \<Rightarrow> py_error + val" where
  "dict_get d key = (case map_of d key of None \<Rightarrow> Inl KeyError | Some v \<Rightarrow> Inr v)"

text \<open>
  \<^verbatim>\<open>get_values\<close> and \<^verbatim>\<open>get_values_and_class\<close>. Python's \<^verbatim>\<open>None\<close> for an absent key is the
  value \<open>VNone\<close>, the same that a key stored with a null value has.
\<close>

definition get_values :: "ext \<Rightarrow> string \<Rightarrow> py_error + val" where
  "get_values s key =
     bindE (get_classification s key) (\<lambda>classification.
       case classification of
         None \<Rightarrow> Inr VNone
       | Some c \<Rightarrow> bindE (get_class_dict s c) (\<lambda>d. dict_get d key))"

definition get_values_and_class :: "ext \<Rightarrow> string \<Rightarrow> py_error + (val \<times> classification option)" where
  "get_values_and_class s key =
     bindE (get_classification s key) (\<lambda>classification.
       case classification of
         None \<Rightarrow> Inr (VNone, None)
       | Some c \<Rightarrow> bindE (get_class_dict s c) (\<lambda>d.
                    bindE (dict_get d key) (\<lambda>v. Inr (v, Some c))))"

section \<open>check_valid\<close>

text \<open>The affine is a nested list; as an array it has shape (4, 4).\<close>

definition affine_shape_ok :: "real list list \<Rightarrow> bool" where
  "affine_shape_ok a = (length a = 4 \<and> list_all (\<lambda>row. length row = 4) a)"

definition slice_dim_ok :: "int option \<Rightarrow> bool" where
  "slice_dim_ok sd = (case sd of None \<Rightarrow> True | Some d \<Rightarrow> 0 \<le> d \<and> d < 3)"

text \<open>The inner loop over the items of a dictionary whose multiplicity is above one.\<close>

fun check_lens :: "meta_dict \<Rightarrow> int \<Rightarrow> py_error + unit" where
  "check_lens [] cls_mult = Inr ()"
| "check_lens ((key, vals) # rest) cls_mult =
     bindE (val_len vals) (\<lambda>n_vals.
       if n_vals \<noteq> cls_mult then Inl InvalidExtensionError else check_lens rest cls_mult)"

definition check_class :: "ext \<Rightarrow> classification \<Rightarrow> py_error + unit" where
  "check_class s classes =
     (case content s (fst classes) of
        None \<Rightarrow> Inl InvalidExtensionError
      | Some bd \<Rightarrow>
          (case bd (snd classes) of
             None \<Rightarrow> Inl InvalidExtensionError
           | Some cls_meta \<Rightarrow>
               bindE (get_multiplicity s (Some classes)) (\<lambda>cls_mult.
                 if cls_mult = 0 \<and> length cls_meta \<noteq> 0 then Inl InvalidExtensionError
                 else if cls_mult > 1 then check_lens cls_meta cls_mult
                 else Inr ())))"

fun check_classes :: "ext \<Rightarrow> classification list \<Rightarrow> py_error + unit" where
  "check_classes s [] = Inr ()"
| "check_classes s (c # cs) = bindE (check_class s c) (\<lambda>_. check_classes s cs)"

text \<open>The keys of a classification's dictionary (none when the dictionary is missing).\<close>

definition keys_of :: "ext \<Rightarrow> classification \<Rightarrow> string list" where
  "keys_of s c = (case get_class_dict s c of Inr d \<Rightarrow> map fst d | Inl _ \<Rightarrow> [])"

text \<open>
  \<^verbatim>\<open>check_valid\<close>. Of the required base keys only \<^verbatim>\<open>'global'\<close> can be missing here, the
  others are fields of the record. The second pair of loops runs after the first loop has
  found every valid dictionary, so its lookups cannot fail.
\<close>

definition check_valid :: "ext \<Rightarrow> py_error + unit" where
  "check_valid s =
     (if \<not> base_in s Global then Inl InvalidExtensionError
      else if \<not> affine_shape_ok (affine s) then Inl InvalidExtensionError
      else if \<not> slice_dim_ok (slice_dim s) then Inl InvalidExtensionError
      else if \<not> (3 \<le> length (shape s) \<and> length (shape s) < 6) then Inl InvalidExtensionError
      else bindE (get_valid_classes s) (\<lambda>valid_classes.
        bindE (check_classes s valid_classes) (\<lambda>_.
          if list_ex (\<lambda>classes. list_ex (\<lambda>other_classes.
                 classes \<noteq> other_classes
                 \<and> set (keys_of s classes) \<inter> set (keys_of s other_classes) \<noteq> {})
               valid_classes) valid_classes
          then Inl InvalidExtensionError
          else Inr ())))"

section \<open>make_empty\<close>

definition global_dicts :: "sub \<Rightarrow> meta_dict option" where
  "global_dicts sb = (if sb = Const \<or> sb = Slices then Some [] else None)"

definition sample_dicts :: "sub \<Rightarrow> meta_dict option" where
  "sample_dicts sb = (if sb = Samples \<or> sb = Slices then Some [] else None)"

definition empty_content :: "int list \<Rightarrow> base \<Rightarrow> (sub \<Rightarrow> meta_dict option) option" where
  "empty_content shp b =
     (case b of
        Global \<Rightarrow> Some global_dicts
      | Time \<Rightarrow> if length shp > 3 \<and> shp ! 3 \<noteq> 1 then Some sample_dicts else None
      | Vector \<Rightarrow> if length shp > 4 then Some sample_dicts else None)"

text \<open>The extension that \<^verbatim>\<open>make_empty\<close> builds.\<close>

definition empty_ext :: "int list \<Rightarrow> real list list \<Rightarrow> int option \<Rightarrow> ext" where
  "empty_ext shp aff sd =
     \<lparr>affine = aff, slice_dim = sd, shape = shp, version = meta_version,
      content = empty_content shp\<rparr>"

text \<open>The three property setters check their argument, in the order shape, affine,
  slice dimension.\<close>

definition make_empty :: "int list \<Rightarrow> real list list \<Rightarrow> int option \<Rightarrow> py_error + ext" where
  "make_empty shp aff sd =
     (if \<not> (3 \<le> length shp \<and> length shp < 6) then Inl ValueError
      else if \<not> affine_shape_ok aff then Inl ValueError
      else if \<not> slice_dim_ok sd then Inl ValueError
      else Inr (empty_ext shp aff sd))"

text \<open>The setter of \<^verbatim>\<open>shape\<close>.\<close>

definition set_shape :: "ext \<Rightarrow> int list \<Rightarrow> py_error + ext" where
  "set_shape s shp =
     (if \<not> (3 \<le> length shp \<and> length shp < 6) then Inl ValueError else Inr (s\<lparr>shape := shp\<rparr>))"

section \<open>_simplify\<close>

definition const_tests :: "classification \<Rightarrow> classification list option" where
  "const_tests c =
     (if c = (Global, Slices) then Some [(Global, Const), (Vector, Samples), (Time, Samples)]
      else if c = (Vector, Slices) then Some [(Global, Const), (Time, Samples)]
      else if c = (Time, Slices) then Some [(Global, Const)]
      else if c = (Time, Samples) then Some [(Global, Const), (Vector, Samples)]
      else if c = (Vector, Samples) then Some [(Global, Const)]
      else None)"

definition repeat_tests :: "classification \<Rightarrow> classification list option" where
  "repeat_tests c =
     (if c = (Global, Slices) then Some [(Time, Slices), (Vector, Slices)]
      else if c = (Vector, Slices) then Some [(Time, Slices)]
      else None)"

text \<open>Python 2 divides integers with \<^verbatim>\<open>/\<close>, rounding down.\<close>

definition floor_div :: "int \<Rightarrow> int \<Rightarrow> py_error + int" where
  "floor_div a b = (if b \<noteq> 0 then Inr (a div b) else Inl ZeroDivisionError)"

definition get_const_period :: "ext \<Rightarrow> classification \<Rightarrow> classification \<Rightarrow> py_error + int option" where
  "get_const_period s src_cls dest_cls =
     (if dest_cls = (Global, Const) then Inr None
      else if src_cls = (Global, Slices) then
        bindE (get_multiplicity s (Some src_cls)) (\<lambda>a.
          bindE (get_multiplicity s (Some dest_cls)) (\<lambda>b.
            bindE (floor_div a b) (\<lambda>q. Inr (Some q))))
      else if src_cls = (Vector, Slices) then n_slices s
      else if src_cls = (Time, Samples) then bindE (py_index (shape s) 3) (\<lambda>t. Inr (Some t))
      else Inl AssertionError)"

text \<open>The first loop of \<^verbatim>\<open>_simplify\<close>; \<open>Some\<close> of the store with the key written to the
  destination when a test succeeds (the \<^verbatim>\<open>break\<close>), \<open>None\<close> when the loop runs out.\<close>

fun try_const ::
  "ext \<Rightarrow> string \<Rightarrow> val \<Rightarrow> classification \<Rightarrow> classification list \<Rightarrow> py_error + ext option" where
  "try_const s key values curr_class [] = Inr None"
| "try_const s key values curr_class (dest_cls # rest) =
     (if base_in s (fst dest_cls) then
        bindE (get_const_period s curr_class dest_cls) (\<lambda>period.
          bindE (is_constant values period) (\<lambda>const.
            if const then
              bindE (val_stride values None period) (\<lambda>new_vals.
                bindE (set_item s dest_cls key new_vals) (\<lambda>s'. Inr (Some s')))
            else try_const s key values curr_class rest))
      else try_const s key values curr_class rest)"

fun try_repeat ::
  "ext \<Rightarrow> string \<Rightarrow> val \<Rightarrow> classification list \<Rightarrow> py_error + ext option" where
  "try_repeat s key values [] = Inr None"
| "try_repeat s key values (dest_cls # rest) =
     (if base_in s (fst dest_cls) then
        bindE (get_multiplicity s (Some dest_cls)) (\<lambda>dest_mult.
          bindE (is_repeating values dest_mult) (\<lambda>rep.
            if rep then
              bindE (val_slice values None (Some dest_mult)) (\<lambda>new_vals.
                bindE (set_item s dest_cls key new_vals) (\<lambda>s'. Inr (Some s')))
            else try_repeat s key values rest))
      else try_repeat s key values rest)"

text \<open>The last two lines of \<^verbatim>\<open>_simplify\<close>, reached after a \<^verbatim>\<open>break\<close>.\<close>

definition simplify_done :: "ext \<Rightarrow> classification \<Rightarrow> string \<Rightarrow> py_error + bool \<times> ext" where
  "simplify_done s curr_class key = bindE (del_item s curr_class key) (\<lambda>s'. Inr (True, s'))"

definition simplify :: "ext \<Rightarrow> string \<Rightarrow> py_error + bool \<times> ext" where
  "simplify s key =
     bindE (get_values_and_class s key) (\<lambda>(values, curr).
       bindE (get_multiplicity s curr) (\<lambda>curr_mult.
         case curr of
           None \<Rightarrow> Inl ValueError
         | Some curr_class \<Rightarrow>
             if curr_class = (Global, Const) then
               (if values = VNone then simplify_done s curr_class key else Inr (False, s))
             else
               (case const_tests curr_class of
                  None \<Rightarrow> Inl KeyError
                | Some dests \<Rightarrow>
                    bindE (try_const s key values curr_class dests) (\<lambda>r.
                      case r of
                        Some s' \<Rightarrow> simplify_done s' curr_class key
                      | None \<Rightarrow>
                          (case repeat_tests curr_class of
                             None \<Rightarrow> Inr (False, s)
                           | Some rdests \<Rightarrow>
                               bindE (try_repeat s key values rdests) (\<lambda>r'.
                                 case r' of
                                   Some s' \<Rightarrow> simplify_done s' curr_class key
                                 | None \<Rightarrow> Inr (False, s)))))))"

section \<open>_get_changed_class and _change_class\<close>

definition preserving_changes :: "classification option \<Rightarrow> classification list option" where
  "preserving_changes c =
     (if c = None then
        Some [(Global, Const), (Vector, Samples), (Time, Samples), (Time, Slices),
              (Vector, Slices), (Global, Slices)]
      else if c = Some (Global, Const) then
        Some [(Vector, Samples), (Time, Samples), (Time, Slices), (Vector, Slices),
              (Global, Slices)]
      else if c = Some (Vector, Samples) then Some [(Time, Samples), (Global, Slices)]
      else if c = Some (Time, Samples) then Some [(Global, Slices)]
      else if c = Some (Time, Slices) then Some [(Vector, Slices), (Global, Slices)]
      else if c = Some (Vector, Slices) then Some [(Global, Slices)]
      else if c = Some (Global, Slices) then Some []
      else None)"

text \<open>\<^verbatim>\<open>x in tuple_of_classes\<close> where \<open>x\<close> may be \<^verbatim>\<open>None\<close>.\<close>

definition class_in :: "classification option \<Rightarrow> classification list \<Rightarrow> bool" where
  "class_in c cs = (case c of None \<Rightarrow> False | Some c' \<Rightarrow> c' \<in> set cs)"

definition get_changed_class :: "ext \<Rightarrow> string \<Rightarrow> classification option \<Rightarrow> py_error + val" where
  "get_changed_class s key new_class =
     bindE (get_values_and_class s key) (\<lambda>(values, curr_class).
       if curr_class = new_class then Inr values
       else
         (case preserving_changes curr_class of
            None \<Rightarrow> Inl KeyError
          | Some allowed \<Rightarrow>
              if \<not> class_in new_class allowed then Inl ValueError
              else
                bindE (if curr_class = None then Inr 1 else get_multiplicity s curr_class)
                  (\<lambda>curr_mult.
                bindE (get_valid_classes s) (\<lambda>valid.
                bindE (if class_in new_class valid then get_multiplicity s new_class else Inr 1)
                  (\<lambda>new_mult.
                bindE (floor_div new_mult curr_mult) (\<lambda>mult_fact.
                bindE (if curr_mult = 1 then Inr [values] else val_items values) (\<lambda>vs.
                  let result = concat (map (\<lambda>v. replicate (nat mult_fact) v) vs)
                  in if new_class = Some (Global, Const) then py_index result 0
                     else Inr (VList result))))))))"

text \<open>
  \<^verbatim>\<open>_change_class\<close>. The right-hand side of the assignment is evaluated before the
  dictionary of the new class is looked up; unpacking a \<^verbatim>\<open>None\<close> class raises TypeError.
\<close>

definition change_class :: "ext \<Rightarrow> string \<Rightarrow> classification option \<Rightarrow> py_error + ext" where
  "change_class s key new_class =
     bindE (get_values_and_class s key) (\<lambda>(values, curr_class).
       if curr_class = new_class then Inr s
       else
         bindE (get_changed_class s key new_class) (\<lambda>new_vals.
           case new_class of
             None \<Rightarrow> Inl TypeError
           | Some nc \<Rightarrow>
               bindE (set_item s nc key new_vals) (\<lambda>s'.
                 case curr_class of
                   None \<Rightarrow> Inr s'
                 | Some cc \<Rightarrow> del_item s' cc key)))"

section \<open>get_subset\<close>

text \<open>The \<^verbatim>\<open>for ... if classes in self.get_valid_classes(): dest_class = classes; break\<close>
  loops: the first candidate that is valid; when there is none the name stays unbound.\<close>

definition first_valid :: "ext \<Rightarrow> classification list \<Rightarrow> py_error + classification" where
  "first_valid s cands =
     bindE (get_valid_classes s) (\<lambda>valid.
       case find (\<lambda>c. c \<in> set valid) cands of
         None \<Rightarrow> Inl UnboundLocalError
       | Some c \<Rightarrow> Inr c)"

text \<open>One round of the loop of \<^verbatim>\<open>_copy_slice\<close>; the result of \<^verbatim>\<open>_simplify\<close> is dropped.\<close>

definition copy_slice_item ::
  "classification \<Rightarrow> int \<Rightarrow> int option \<Rightarrow> string \<times> val \<Rightarrow> ext \<Rightarrow> py_error + ext" where
  "copy_slice_item dest_class idx stride kv s =
     bindE (val_stride (snd kv) (Some idx) stride) (\<lambda>subset_vals.
       bindE (val_len subset_vals) (\<lambda>n.
         bindE (if n = 1 then val_index subset_vals 0 else Inr subset_vals) (\<lambda>subset_vals'.
           bindE (set_item s dest_class (fst kv) subset_vals') (\<lambda>s'.
             bindE (simplify s' (fst kv)) (\<lambda>(changed, s''). Inr s'')))))"

definition copy_slice :: "ext \<Rightarrow> ext \<Rightarrow> classification \<Rightarrow> int \<Rightarrow> py_error + ext" where
  "copy_slice s other src_class idx =
     bindE (if fst src_class = Global then
              first_valid s [(Time, Samples), (Vector, Samples), (Global, Const)]
            else if fst src_class = Vector then
              first_valid s [(Time, Samples), (Global, Const)]
            else Inr (Global, Const)) (\<lambda>dest_class.
       bindE (n_slices other) (\<lambda>stride.
         bindE (get_class_dict other src_class) (\<lambda>src_dict.
           foldE (copy_slice_item dest_class idx stride) src_dict s)))"

text \<open>
  \<^verbatim>\<open>_global_slice_subset\<close>, called on the source store. Multiplying with a \<^verbatim>\<open>None\<close>
  number of slices raises TypeError. In the last branch the source iterates over the
  integer \<^verbatim>\<open>shape[4]\<close>, which raises TypeError as well.
\<close>

definition mul_slices :: "int option \<Rightarrow> int \<Rightarrow> py_error + int" where
  "mul_slices ns k = (case ns of None \<Rightarrow> Inl TypeError | Some n \<Rightarrow> Inr (n * k))"

definition global_slice_subset :: "ext \<Rightarrow> string \<Rightarrow> base \<Rightarrow> int \<Rightarrow> py_error + val" where
  "global_slice_subset s key sample_base idx =
     bindE (n_slices s) (\<lambda>ns.
       bindE (get_class_dict s (Global, Slices)) (\<lambda>src_dict.
         if sample_base = Vector then
           bindE (py_index (shape s) 3) (\<lambda>t.
             bindE (mul_slices ns t) (\<lambda>slices_per_vec.
               bindE (dict_get src_dict key) (\<lambda>vals.
                 val_slice vals (Some (idx * slices_per_vec))
                           (Some (idx * slices_per_vec + slices_per_vec)))))
         else
           bindE (get_valid_classes s) (\<lambda>valid.
             if (Vector, Samples) \<notin> set valid then
               bindE (mul_slices ns idx) (\<lambda>start_idx.
                 bindE (dict_get src_dict key) (\<lambda>vals.
                   val_slice vals (Some start_idx) (Some (start_idx + the ns))))
             else
               bindE (py_index (shape s) 3) (\<lambda>t.
                 bindE (mul_slices ns t) (\<lambda>slices_per_vec.
                   bindE (py_index (shape s) 4) (\<lambda>v. Inl TypeError))))))"

text \<open>Copying every item of a dictionary into the dictionary of a class of the result.\<close>

definition copy_items :: "classification \<Rightarrow> meta_dict \<Rightarrow> ext \<Rightarrow> py_error + ext" where
  "copy_items dest src_dict s = foldE (\<lambda>kv s'. set_item s' dest (fst kv) (snd kv)) src_dict s"

definition copy_sample :: "ext \<Rightarrow> ext \<Rightarrow> classification \<Rightarrow> base \<Rightarrow> int \<Rightarrow> py_error + ext" where
  "copy_sample s other src_class sample_base idx =
     bindE (get_class_dict other src_class) (\<lambda>src_dict.
       if snd src_class = Samples then
         (if fst src_class = sample_base then
            foldE (\<lambda>kv s'. bindE (val_index (snd kv) idx)
                              (\<lambda>v. set_item s' (Global, Const) (fst kv) v)) src_dict s
          else copy_items src_class src_dict s)
       else if fst src_class = sample_base then
         (case preserving_changes (Some src_class) of
            None \<Rightarrow> Inl KeyError
          | Some dests \<Rightarrow>
              bindE (get_valid_classes s) (\<lambda>valid.
                case find (\<lambda>c. c \<in> set valid) dests of
                  None \<Rightarrow> (if src_dict = [] then Inr s else Inl TypeError)
                | Some best_dest \<Rightarrow> copy_items best_dest src_dict s))
       else if fst src_class \<noteq> Global then
         (if sample_base = Time then
            bindE (n_slices s) (\<lambda>ns.
              bindE (mul_slices ns idx) (\<lambda>start_idx.
                foldE (\<lambda>kv s'.
                         bindE (val_slice (snd kv) (Some start_idx) (Some (start_idx + the ns)))
                           (\<lambda>v. bindE (set_item s' src_class (fst kv) v)
                             (\<lambda>s''. bindE (simplify s'' (fst kv)) (\<lambda>(changed, s3). Inr s3))))
                      src_dict s))
          else copy_items src_class src_dict s)
       else
         foldE (\<lambda>kv s'.
                  bindE (global_slice_subset other (fst kv) sample_base idx)
                    (\<lambda>v. bindE (set_item s' src_class (fst kv) v)
                      (\<lambda>s''. bindE (simplify s'' (fst kv)) (\<lambda>(changed, s3). Inr s3))))
               src_dict s)"

text \<open>Dropping the trailing axes of size one beyond the third.\<close>

function trim_shape :: "int list \<Rightarrow> int list" where
  "trim_shape xs =
     (if xs \<noteq> [] \<and> last xs = 1 \<and> length xs > 3 then trim_shape (butlast xs) else xs)"
  by pat_completeness auto
termination
  by (relation "measure length") auto

declare trim_shape.simps [simp del]

text \<open>The body of the loop of \<^verbatim>\<open>get_subset\<close> over the valid classes of the source.\<close>

definition subset_class :: "ext \<Rightarrow> int \<Rightarrow> int \<Rightarrow> classification \<Rightarrow> ext \<Rightarrow> py_error + ext" where
  "subset_class src dimn idx src_class result =
     (if src_class = (Global, Const) then
        bindE (get_class_dict src src_class) (\<lambda>d. copy_items src_class d result)
      else if Some dimn = slice_dim src then
        (if snd src_class \<noteq> Slices then
           bindE (get_class_dict src src_class) (\<lambda>d. copy_items src_class d result)
         else copy_slice result src src_class idx)
      else if dimn < 3 then
        bindE (get_class_dict src src_class) (\<lambda>d. copy_items src_class d result)
      else if dimn = 3 then copy_sample result src src_class Time idx
      else copy_sample result src src_class Vector idx)"

definition get_subset :: "ext \<Rightarrow> int \<Rightarrow> int \<Rightarrow> py_error + ext" where
  "get_subset s dimn idx =
     (if \<not> (0 \<le> dimn \<and> dimn < 5) then Inl ValueError
      else
        bindE (get_valid_classes s) (\<lambda>valid_classes.
          if \<not> dimn < int (length (shape s)) then Inl IndexError
          else
            bindE (make_empty (trim_shape ((shape s)[nat dimn := 1])) (affine s) (slice_dim s))
              (\<lambda>result. foldE (subset_class s dimn idx) valid_classes result)))"

section \<open>from_sequence\<close>

text \<open>
  The loop of \<^verbatim>\<open>_insert_slice\<close> that interleaves the slices of the volumes; \<open>k\<close> counts
  the volumes that are left. Adding a \<^verbatim>\<open>None\<close> number of slices raises TypeError.
\<close>

fun interleave ::
  "val \<Rightarrow> val \<Rightarrow> int \<Rightarrow> int option \<Rightarrow> nat \<Rightarrow> int \<Rightarrow> int \<Rightarrow> py_error + val list" where
  "interleave local_vals other_vals n m 0 loc_start oth_start = Inr []"
| "interleave local_vals other_vals n m (Suc k) loc_start oth_start =
     bindE (val_slice local_vals (Some loc_start) (Some (loc_start + n))) (\<lambda>a.
       bindE (val_items a) (\<lambda>as.
         case m of
           None \<Rightarrow> Inl TypeError
         | Some m' \<Rightarrow>
             bindE (val_slice other_vals (Some oth_start) (Some (oth_start + m'))) (\<lambda>b.
               bindE (val_items b) (\<lambda>bs.
                 bindE (interleave local_vals other_vals n m k (loc_start + n) (oth_start + m'))
                   (\<lambda>rest. Inr (as @ bs @ rest))))))"

text \<open>
  \<^verbatim>\<open>self.get_values(key).extend(other_vals)\<close>: the list stored for the key grows in place.
  An absent key gives \<^verbatim>\<open>None\<close>, which has no \<^verbatim>\<open>extend\<close>.
\<close>

definition extend_values :: "ext \<Rightarrow> string \<Rightarrow> val \<Rightarrow> py_error + ext" where
  "extend_values s key other_vals =
     bindE (get_values_and_class s key) (\<lambda>(local_vals, classes).
       bindE (val_extend local_vals other_vals) (\<lambda>new_vals.
         case classes of
           None \<Rightarrow> Inl AttributeError
         | Some c \<Rightarrow> set_item s c key new_vals))"

text \<open>The loop over \<^verbatim>\<open>('time', 'vector', 'global')\<close> in \<^verbatim>\<open>_insert_slice\<close>.\<close>

fun insert_slice_const :: "ext \<Rightarrow> string \<Rightarrow> ext \<Rightarrow> base list \<Rightarrow> py_error + ext" where
  "insert_slice_const s key other [] = Inr s"
| "insert_slice_const s key other (dest_base # rest) =
     (if base_in s dest_base then
        bindE (change_class s key (Some (dest_base, Slices))) (\<lambda>s'.
          bindE (get_changed_class other key (Some (dest_base, Slices))) (\<lambda>other_vals.
            extend_values s' key other_vals))
      else insert_slice_const s key other rest)"

definition insert_slice :: "ext \<Rightarrow> string \<Rightarrow> ext \<Rightarrow> py_error + ext" where
  "insert_slice s key other =
     bindE (get_values_and_class s key) (\<lambda>(local_vals, classes).
       bindE (get_changed_class other key classes) (\<lambda>other_vals.
         if classes = Some (Global, Const) then
           (if local_vals \<noteq> other_vals then insert_slice_const s key other [Time, Vector, Global]
            else Inr s)
         else if classes = Some (Time, Slices) then
           bindE (val_extend local_vals other_vals) (\<lambda>new_vals.
             set_item s (Time, Slices) key new_vals)
         else
           bindE (if classes \<noteq> Some (Global, Slices) then
                    bindE (change_class s key (Some (Global, Slices))) (\<lambda>s'.
                      bindE (get_class_dict s' (Global, Slices)) (\<lambda>d.
                        bindE (dict_get d key) (\<lambda>lv.
                          bindE (get_changed_class other key (Some (Global, Slices))) (\<lambda>ov.
                            Inr (s', lv, ov)))))
                  else Inr (s, local_vals, other_vals)) (\<lambda>(s', lv, ov).
             bindE (n_slices s') (\<lambda>ns.
               bindE (n_slices other) (\<lambda>other_n_slices.
                 let n_vols = prod_list (drop 3 (shape s')) in
                 bindE (if 0 < n_vols \<and> ns = None then Inl TypeError
                        else interleave lv ov (the ns) other_n_slices (nat n_vols) 0 0)
                   (\<lambda>intlv. set_item s' (Global, Slices) key (VList intlv)))))))"

text \<open>\<^verbatim>\<open>_insert_non_slice\<close>: deleting from the dictionary of a \<^verbatim>\<open>None\<close> class raises
  TypeError.\<close>

definition insert_non_slice :: "ext \<Rightarrow> string \<Rightarrow> ext \<Rightarrow> py_error + ext" where
  "insert_non_slice s key other =
     bindE (get_values_and_class s key) (\<lambda>(local_vals, classes).
       bindE (get_changed_class other key classes) (\<lambda>other_vals.
         if local_vals \<noteq> other_vals then
           (case classes of None \<Rightarrow> Inl TypeError | Some c \<Rightarrow> del_item s c key)
         else Inr s))"

definition insert_sample :: "ext \<Rightarrow> string \<Rightarrow> ext \<Rightarrow> base \<Rightarrow> py_error + ext" where
  "insert_sample s key other sample_base =
     bindE (get_values_and_class s key) (\<lambda>(local_vals, classes).
       bindE (get_changed_class other key classes) (\<lambda>other_vals.
         if classes = Some (Global, Const) then
           (if local_vals \<noteq> other_vals then
              bindE (change_class s key (Some (sample_base, Samples))) (\<lambda>s'.
                bindE (get_values s' key) (\<lambda>lv.
                  bindE (get_changed_class other key (Some (sample_base, Samples))) (\<lambda>ov.
                    extend_values s' key ov)))
            else Inr s)
         else if classes = Some (sample_base, Samples) then
           bindE (val_extend local_vals other_vals) (\<lambda>new_vals.
             set_item s (sample_base, Samples) key new_vals)
         else
           bindE (if classes \<noteq> Some (Global, Slices) then
                    bindE (change_class s key (Some (Global, Slices))) (\<lambda>s'.
                      bindE (get_values s' key) (\<lambda>lv.
                        bindE (get_changed_class other key (Some (Global, Slices))) (\<lambda>ov.
                          Inr (s', lv, ov))))
                  else Inr (s, local_vals, other_vals)) (\<lambda>(s', lv, ov).
             if sample_base = Time \<and> length (shape s') = 5 then
               bindE (n_slices s') (\<lambda>ns.
                 bindE (mul_slices ns (shape s' ! 3)) (\<lambda>slices_per_vec.
                   bindE (py_index (shape other) 3) (\<lambda>ot.
                     bindE (mul_slices ns ot) (\<lambda>oth_slc_per_vec.
                       bindE (interleave lv ov slices_per_vec (Some oth_slc_per_vec)
                                (nat (shape s' ! 4)) 0 0)
                         (\<lambda>intlv. set_item s' (Global, Slices) key (VList intlv))))))
             else extend_values s' key ov)))"

text \<open>The first loop over the keys in \<^verbatim>\<open>_insert\<close>: reclassify the key in the result so
  that it matches the class it has in the other extension.\<close>

definition reclassify_key :: "classification \<Rightarrow> string \<Rightarrow> ext \<Rightarrow> py_error + ext" where
  "reclassify_key other_classes key s =
     bindE (get_classification s key) (\<lambda>local_classes.
       if local_classes \<noteq> Some other_classes then
         (case preserving_changes local_classes of
            None \<Rightarrow> Inl KeyError
          | Some local_allow \<Rightarrow>
              (case preserving_changes (Some other_classes) of
                 None \<Rightarrow> Inl KeyError
               | Some other_allow \<Rightarrow>
                   if other_classes \<in> set local_allow then
                     change_class s key (Some other_classes)
                   else if \<not> class_in local_classes other_allow then
                     change_class s key
                       (find (\<lambda>dest_class. base_in s (fst dest_class)
                                            \<and> dest_class \<in> set other_allow) local_allow)
                   else Inr s))
       else Inr s)"

text \<open>The second loop over the keys in \<^verbatim>\<open>_insert\<close>.\<close>

definition insert_key :: "ext \<Rightarrow> int \<Rightarrow> string \<Rightarrow> ext \<Rightarrow> py_error + ext" where
  "insert_key other dimn key s =
     (if Some dimn = slice_dim s then insert_slice s key other
      else if dimn < 3 then insert_non_slice s key other
      else if dimn = 3 then insert_sample s key other Time
      else if dimn = 4 then insert_sample s key other Vector
      else Inr s)"

definition insert_class ::
  "ext \<Rightarrow> int \<Rightarrow> bool \<Rightarrow> string list \<Rightarrow> classification \<Rightarrow> ext \<Rightarrow> py_error + ext" where
  "insert_class other dimn use_slices missing_keys other_classes s =
     (if snd other_classes = Slices \<and> \<not> use_slices then Inr s
      else
        bindE (get_class_dict other other_classes) (\<lambda>d.
          let other_keys = map fst d @ (if other_classes = (Global, Const) then missing_keys else [])
          in bindE (foldE (reclassify_key other_classes) other_keys s) (\<lambda>s'.
               foldE (insert_key other dimn) other_keys s')))"

text \<open>
  \<^verbatim>\<open>_insert\<close>. The comparison of the two slice normals is numpy's \<^verbatim>\<open>allclose\<close>, a
  floating point test that is a parameter here. The missing keys are a set in the source;
  here they come in the order of the keys of the result.
\<close>

definition insert_ext ::
  "(real list option \<Rightarrow> real list option \<Rightarrow> py_error + bool) \<Rightarrow> int \<Rightarrow> ext \<Rightarrow> ext \<Rightarrow> py_error + ext" where
  "insert_ext allclose dimn other s =
     bindE (slice_normal other) (\<lambda>other_normal.
       bindE (slice_normal s) (\<lambda>normal.
         bindE (allclose other_normal normal) (\<lambda>use_slices.
           bindE (get_keys s) (\<lambda>keys.
             bindE (get_keys other) (\<lambda>other_keys.
               bindE (get_valid_classes other) (\<lambda>other_valid.
                 foldE (insert_class other dimn use_slices
                          (remdups (filter (\<lambda>k. k \<notin> set other_keys) keys)))
                       other_valid s))))))"

text \<open>Seeding the result with the dictionaries of the first input.\<close>

definition seed_class :: "ext \<Rightarrow> bool \<Rightarrow> classification \<Rightarrow> ext \<Rightarrow> py_error + ext" where
  "seed_class first_input use_slices classes result =
     (if snd classes = Slices \<and> \<not> use_slices then Inr result
      else
        bindE (get_class_dict first_input classes) (\<lambda>d.
          if \<not> base_in result (fst classes) then Inl KeyError
          else Inr (put_class_dict result classes d)))"

text \<open>Adding one more input: \<^verbatim>\<open>_insert\<close>, then the shape grows by one along \<open>dimn\<close>.\<close>

definition add_input ::
  "(real list option \<Rightarrow> real list option \<Rightarrow> py_error + bool) \<Rightarrow> int \<Rightarrow> ext \<Rightarrow> ext \<Rightarrow> py_error + ext" where
  "add_input allclose dimn input_ext result =
     bindE (insert_ext allclose dimn input_ext result) (\<lambda>result'.
       set_shape result' ((shape result')[nat dimn := shape result' ! nat dimn + 1]))"

definition from_sequence ::
  "(real list option \<Rightarrow> real list option \<Rightarrow> py_error + bool) \<Rightarrow> ext list \<Rightarrow> int
     \<Rightarrow> real list list option \<Rightarrow> int option \<Rightarrow> py_error + ext" where
  "from_sequence allclose seq dimn affine_arg slice_dim_arg =
     (if \<not> (0 \<le> dimn \<and> dimn < 5) then Inl ValueError
      else
        (case seq of
           [] \<Rightarrow> Inl IndexError
         | first_input # others \<Rightarrow>
             let input_shape = shape first_input in
             if int (length input_shape) > dimn \<and> input_shape ! nat dimn \<noteq> 1 then Inl ValueError
             else
               let output_shape =
                     (input_shape @ replicate (nat dimn + 1 - length input_shape) 1)
                       [nat dimn := int (length seq)];
                   aff = (case affine_arg of None \<Rightarrow> affine first_input | Some a \<Rightarrow> a);
                   sd = (case slice_dim_arg of None \<Rightarrow> slice_dim first_input | Some d \<Rightarrow> Some d)
               in
               bindE (make_empty output_shape aff sd) (\<lambda>result.
               bindE (slice_normal result) (\<lambda>normal.
               bindE (slice_normal first_input) (\<lambda>first_normal.
               bindE (allclose normal first_normal) (\<lambda>use_slices.
               bindE (get_valid_classes first_input) (\<lambda>first_valid_classes.
               bindE (foldE (seed_class first_input use_slices) first_valid_classes result)
                 (\<lambda>result.
               bindE (set_shape result ((shape result)[nat dimn := 1])) (\<lambda>result.
               bindE (foldE (add_input allclose dimn) others result) (\<lambda>result.
               bindE (get_class_dict result (Global, Slices)) (\<lambda>d.
                 foldE (\<lambda>key r. bindE (simplify r key) (\<lambda>(changed, r'). Inr r'))
                       (map fst d) result)))))))))))"

section \<open>The multiplicity table of the specification\<close>

text \<open>
  The table of multiplicities as the specification gives it, for a shape \<open>shp\<close> and the size
  \<open>S\<close> of the slice axis (\<open>None\<close> when there is no slice axis): one value for a constant,
  \<open>S\<close> times the sizes of all axes past the third for (global, slices), and so on. Without a
  slice axis a per-slice classification holds no values.
\<close>

fun table_multiplicity :: "int list \<Rightarrow> int option \<Rightarrow> classification \<Rightarrow> int" where
  "table_multiplicity shp S (Global, Const) = 1"
| "table_multiplicity shp S (Global, Slices) =
     (case S of None \<Rightarrow> 0 | Some n \<Rightarrow> n * prod_list (drop 3 shp))"
| "table_multiplicity shp S (Time, Samples) =
     (if length shp = 5 then shp ! 3 * shp ! 4 else shp ! 3)"
| "table_multiplicity shp S (Time, Slices) = (case S of None \<Rightarrow> 0 | Some n \<Rightarrow> n)"
| "table_multiplicity shp S (Vector, Samples) = shp ! 4"
| "table_multiplicity shp S (Vector, Slices) = (case S of None \<Rightarrow> 0 | Some n \<Rightarrow> n * shp ! 3)"
| "table_multiplicity shp S _ = 1"

section \<open>The conditions under which check_valid fails\<close>

text \<open>The valid classes as a list, empty when the shape has no valid classes.\<close>

definition valid_list :: "ext \<Rightarrow> classification list" where
  "valid_list s = (case get_valid_classes s of Inr valid \<Rightarrow> valid | Inl _ \<Rightarrow> [])"

text \<open>The header of the store: the \<^verbatim>\<open>'global'\<close> entry is there, the affine is 4 by 4, the
  slice dimension is absent or 0, 1 or 2, and the shape has three to five entries.\<close>

definition header_ok :: "ext \<Rightarrow> bool" where
  "header_ok s = (base_in s Global \<and> affine_shape_ok (affine s)
                  \<and> slice_dim_ok (slice_dim s)
                  \<and> 3 \<le> length (shape s) \<and> length (shape s) < 6)"

text \<open>A classification valid for the shape has no dictionary.\<close>

definition missing_dict :: "ext \<Rightarrow> bool" where
  "missing_dict s = (\<exists>c \<in> set (valid_list s). get_class_dict s c = Inl KeyError)"

text \<open>A dictionary is not empty while the multiplicity of its classification is 0.\<close>

definition nonempty_at_zero :: "ext \<Rightarrow> bool" where
  "nonempty_at_zero s =
     (\<exists>c \<in> set (valid_list s). \<exists>d. get_class_dict s c = Inr d \<and> d \<noteq> []
          \<and> get_multiplicity s (Some c) = Inr 0)"

text \<open>A value has a length other than the multiplicity \<open>m\<close> of its classification, for
  the given range of multiplicities.\<close>

definition wrong_length :: "(int \<Rightarrow> bool) \<Rightarrow> ext \<Rightarrow> bool" where
  "wrong_length checked s =
     (\<exists>c \<in> set (valid_list s). \<exists>d m. get_class_dict s c = Inr d
          \<and> get_multiplicity s (Some c) = Inr m \<and> checked m
          \<and> (\<exists>kv \<in> set d. val_len (snd kv) \<noteq> Inr m))"

text \<open>A key is in the dictionaries of two different valid classifications.\<close>

definition duplicate_key :: "ext \<Rightarrow> bool" where
  "duplicate_key s =
     (\<exists>c \<in> set (valid_list s). \<exists>c' \<in> set (valid_list s).
          c \<noteq> c' \<and> set (keys_of s c) \<inter> set (keys_of s c') \<noteq> {})"

text \<open>Every value stored under a multiplicity above one is a sequence (it has a length).\<close>

definition sized_values :: "ext \<Rightarrow> bool" where
  "sized_values s =
     (\<forall>c \<in> set (valid_list s). \<forall>d m. get_class_dict s c = Inr d
          \<longrightarrow> get_multiplicity s (Some c) = Inr m \<longrightarrow> 1 < m
          \<longrightarrow> (\<forall>kv \<in> set d. val_len (snd kv) \<noteq> Inl TypeError))"

text \<open>What makes the first loop of check_valid fail at one classification.\<close>

definition class_bad :: "ext \<Rightarrow> classification \<Rightarrow> bool" where
  "class_bad s c =
     (get_class_dict s c = Inl KeyError
      \<or> (\<exists>d. get_class_dict s c = Inr d \<and> d \<noteq> [] \<and> get_multiplicity s (Some c) = Inr 0)
      \<or> (\<exists>d m. get_class_dict s c = Inr d \<and> get_multiplicity s (Some c) = Inr m \<and> 1 < m
             \<and> (\<exists>kv \<in> set d. val_len (snd kv) \<noteq> Inr m)))"

section \<open>Example stores\<close>

definition identity_affine :: "real list list" where
  "identity_affine = [[1, 0, 0, 0], [0, 1, 0, 0], [0, 0, 1, 0], [0, 0, 0, 1]]"

definition store_5d :: ext where
  "store_5d = empty_ext [2, 3, 4, 5, 6] identity_affine (Some 2)"

definition store_vec1 :: ext where
  "store_vec1 = empty_ext [2, 2, 2, 3, 1] identity_affine None"

definition store_len1 :: ext where
  "store_len1 =
     put_class_dict (empty_ext [2, 2, 2, 2, 1] identity_affine (Some 2)) (Vector, Samples)
       [(''k'', VList [VInt 1, VInt 2, VInt 3])]"

definition store_dup :: ext where
  "store_dup =
     put_class_dict
       (put_class_dict (empty_ext [2, 2, 2] identity_affine (Some 2)) (Global, Const)
          [(''k'', VInt 1)])
       (Global, Slices) [(''k'', VList [VInt 1, VInt 2])]"

text \<open>A store that holds the key EchoTime as a constant.\<close>

definition echo_store :: "int list \<Rightarrow> real list list \<Rightarrow> int option \<Rightarrow> int \<Rightarrow> ext" where
  "echo_store shp aff sd v =
     put_class_dict (empty_ext shp aff sd) (Global, Const) [(''EchoTime'', VInt v)]"

text \<open>The store that merging the constants \<open>v\<close>, \<open>v\<close> and \<open>w\<close> along the time axis
  builds, written as the updates the merge makes.\<close>

definition merged_b :: "int list \<Rightarrow> real list list \<Rightarrow> int option \<Rightarrow> int \<Rightarrow> int \<Rightarrow> ext" where
  "merged_b shp aff sd v w =
     put_class_dict
       (put_class_dict
         (put_class_dict (echo_store shp aff sd v)
           (Time, Samples) [(''EchoTime'', VList [VInt v, VInt v])])
         (Global, Const) [])
       (Time, Samples) [(''EchoTime'', VList [VInt v, VInt v, VInt w])]"

text \<open>A comparison of slice normals that finds them all close.\<close>

definition allclose_true :: "real list option \<Rightarrow> real list option \<Rightarrow> py_error + bool" where
  "allclose_true a b = Inr True"

section \<open>Properties\<close>

lemma bindE_simps [simp]: "bindE (Inl e) f = Inl e" "bindE (Inr x) f = f x"
  by (simp_all add: bindE_def)

subsection \<open>Reading a store that was built by updates\<close>

lemma sel_put [simp]:
  "shape (put_class_dict s c d) = shape s"
  "slice_dim (put_class_dict s c d) = slice_dim s"
  "affine (put_class_dict s c d) = affine s"
  "version (put_class_dict s c d) = version s"
  by (simp_all add: put_class_dict_def)

lemma base_in_put [simp]: "base_in (put_class_dict s c d) b = base_in s b"
  by (simp add: put_class_dict_def base_in_def)

lemma base_in_shape_upd [simp]: "base_in (s\<lparr>shape := x\<rparr>) b = base_in s b"
  by (simp add: base_in_def)

lemma gcd_put:
  "get_class_dict (put_class_dict s c d) c' =
     (if c' = c then (if base_in s (fst c) then Inr d else Inl KeyError)
      else get_class_dict s c')"
  by (cases c; cases c')
     (auto simp: get_class_dict_def put_class_dict_def base_in_def split: option.splits)

lemma gcd_shape_upd [simp]: "get_class_dict (s\<lparr>shape := x\<rparr>) c = get_class_dict s c"
  by (simp add: get_class_dict_def)

lemma put_shape_upd [simp]:
  "put_class_dict (s\<lparr>shape := x\<rparr>) c d = (put_class_dict s c d)\<lparr>shape := x\<rparr>"
  by (simp add: put_class_dict_def)

lemma sel_empty [simp]:
  "shape (empty_ext shp aff sd) = shp"
  "slice_dim (empty_ext shp aff sd) = sd"
  "affine (empty_ext shp aff sd) = aff"
  "version (empty_ext shp aff sd) = meta_version"
  by (simp_all add: empty_ext_def)

lemma base_in_empty:
  "base_in (empty_ext shp aff sd) b =
     (b = Global \<or> b = Time \<and> length shp > 3 \<and> shp ! 3 \<noteq> 1 \<or> b = Vector \<and> length shp > 4)"
  by (cases b) (auto simp: empty_ext_def empty_content_def base_in_def)

lemma gcd_empty:
  "get_class_dict (empty_ext shp aff sd) c =
     (if c = (Global, Const) \<or> c = (Global, Slices)
         \<or> (c = (Time, Samples) \<or> c = (Time, Slices)) \<and> length shp > 3 \<and> shp ! 3 \<noteq> 1
         \<or> (c = (Vector, Samples) \<or> c = (Vector, Slices)) \<and> length shp > 4
      then Inr [] else Inl KeyError)"
  by (cases c; cases "fst c"; cases "snd c")
     (auto simp: get_class_dict_def empty_ext_def empty_content_def global_dicts_def
                 sample_dicts_def)

lemma make_empty_eq:
  "make_empty shp aff sd =
     (if 3 \<le> length shp \<and> length shp < 6 \<and> affine_shape_ok aff \<and> slice_dim_ok sd
      then Inr (empty_ext shp aff sd) else Inl ValueError)"
  by (simp add: make_empty_def)

lemma put_same:
  assumes "get_class_dict s c = Inr d"
  shows "put_class_dict s c d = s"
proof -
  obtain b sb where c: "c = (b, sb)" by (cases c)
  from assms c obtain bd where bd: "content s b = Some bd" "bd sb = Some d"
    by (auto simp: get_class_dict_def split: option.splits)
  then have "bd(sb \<mapsto> d) = bd" by (auto simp: fun_eq_iff)
  with bd have "(content s)(b := map_option (\<lambda>bd. bd(sb \<mapsto> d)) (content s b)) = content s"
    by (auto simp: fun_eq_iff)
  then show ?thesis by (simp add: put_class_dict_def c)
qed

lemma put_put [simp]:
  "put_class_dict (put_class_dict s c d) c d' = put_class_dict s c d'"
  by (cases c; cases "content s (fst c)") (simp_all add: put_class_dict_def)

lemma identity_affine_ok [simp]: "affine_shape_ok identity_affine"
  by (simp add: affine_shape_ok_def identity_affine_def)

subsection \<open>Valid classes and multiplicity\<close>

lemma valid_classes_cases:
  assumes "get_valid_classes s = Inr valid"
  shows "length (shape s) = 3 \<and> valid = [(Global, Const), (Global, Slices)]
       \<or> length (shape s) = 4
           \<and> valid = [(Global, Const), (Global, Slices), (Time, Samples), (Time, Slices)]
       \<or> length (shape s) = 5 \<and> shape s ! 3 \<noteq> 1 \<and> valid = classifications
       \<or> length (shape s) = 5 \<and> shape s ! 3 = 1
           \<and> valid = [(Global, Const), (Global, Slices), (Vector, Samples), (Vector, Slices)]"
  using assms
  by (auto simp: get_valid_classes_def classifications_def Let_def split: if_splits)

lemma get_multiplicity_eq:
  assumes valid: "get_valid_classes s = Inr valid"
      and ns: "n_slices s = Inr S"
  shows "get_multiplicity s (Some c) =
           (if c \<in> set valid then Inr (table_multiplicity (shape s) S c) else Inl ValueError)"
proof (cases "c \<in> set valid")
  case False
  then show ?thesis
    by (cases c) (simp add: get_multiplicity_def valid)
next
  case True
  obtain b sb where c: "c = (b, sb)" by (cases c)
  from valid_classes_cases [OF valid] True c show ?thesis
    by (cases b; cases sb; cases S)
       (auto simp: get_multiplicity_def valid ns classifications_def)
qed



text \<open>
  Claim C4, as the code has it. With five axes the valid classifications are decided by the
  length of the fourth axis, the time axis: when it is 1 they are the two global and the two
  vector classifications, otherwise all six. The length of the fifth axis plays no part.
\<close>

theorem get_valid_classes_5d:
  assumes "length (shape s) = 5"
  shows "get_valid_classes s =
           Inr (if shape s ! 3 = 1
                then [(Global, Const), (Global, Slices), (Vector, Samples), (Vector, Slices)]
                else [(Global, Const), (Global, Slices), (Time, Samples), (Time, Slices),
                      (Vector, Samples), (Vector, Slices)])"
  using assms by (simp add: get_valid_classes_def classifications_def)

theorem get_valid_classes_5d_witness:
  "length (shape store_vec1) = 5
   \<and> get_valid_classes store_vec1 =
       Inr [(Global, Const), (Global, Slices), (Time, Samples), (Time, Slices),
            (Vector, Samples), (Vector, Slices)]"
proof -
  have l: "length (shape store_vec1) = 5" by (simp add: store_vec1_def)
  show ?thesis using get_valid_classes_5d [OF l] by (simp add: store_vec1_def)
qed

text \<open>
  Claim C4 as stated fails: a store of shape [2, 2, 2, 3, 1] has a vector axis of length 1,
  and its valid classifications are not the four global and vector ones.
\<close>

theorem get_valid_classes_vector_length_one_counterexample:
  "length (shape store_vec1) = 5 \<and> shape store_vec1 ! 4 = 1
   \<and> get_valid_classes store_vec1
       \<noteq> Inr [(Global, Const), (Global, Slices), (Vector, Samples), (Vector, Slices)]"
  by (simp add: store_vec1_def get_valid_classes_def classifications_def)

subsection \<open>Looking up an absent key\<close>

lemma find_class_absent:
  assumes "\<forall>c \<in> set cs. \<exists>d. get_class_dict s c = Inr d \<and> map_of d key = None"
  shows "find_class s key cs = Inr None"
  using assms by (induction cs) auto



subsection \<open>check_valid\<close>

lemma check_class_eq:
  "check_class s classes =
     (case get_class_dict s classes of
        Inl e \<Rightarrow> Inl InvalidExtensionError
      | Inr cls_meta \<Rightarrow>
          bindE (get_multiplicity s (Some classes)) (\<lambda>cls_mult.
            if cls_mult = 0 \<and> length cls_meta \<noteq> 0 then Inl InvalidExtensionError
            else if cls_mult > 1 then check_lens cls_meta cls_mult
            else Inr ()))"
  by (simp add: check_class_def get_class_dict_def split: option.splits)

lemma val_len_cases: "val_len v = Inl TypeError \<or> (\<exists>n. val_len v = Inr n)"
  by (cases v) (simp_all add: val_len_def)

lemma check_lens_sized:
  assumes "\<forall>kv \<in> set d. val_len (snd kv) \<noteq> Inl TypeError"
  shows "check_lens d m =
           (if \<exists>kv \<in> set d. val_len (snd kv) \<noteq> Inr m then Inl InvalidExtensionError
            else Inr ())"
  using assms
proof (induction d)
  case Nil
  then show ?case by simp
next
  case (Cons kv d)
  obtain k v where kv: "kv = (k, v)" by (cases kv)
  from Cons.prems kv obtain n where n: "val_len v = Inr n"
    using val_len_cases [of v] by auto
  from Cons show ?case by (auto simp: kv n)
qed

lemma header_ok_valid:
  assumes "header_ok s"
  shows "\<exists>valid. get_valid_classes s = Inr valid"
  using assms by (auto simp: header_ok_def get_valid_classes_def Let_def)

lemma header_ok_n_slices:
  assumes "header_ok s"
  shows "\<exists>S. n_slices s = Inr S"
  using assms
  by (auto simp: header_ok_def n_slices_def slice_dim_ok_def py_index_def split: option.splits)

lemma header_ok_multiplicity:
  assumes h: "header_ok s" and c: "c \<in> set (valid_list s)"
  shows "\<exists>m. get_multiplicity s (Some c) = Inr m"
proof -
  from header_ok_valid [OF h] obtain valid where v: "get_valid_classes s = Inr valid" by blast
  from header_ok_n_slices [OF h] obtain S where S: "n_slices s = Inr S" by blast
  from c v have "c \<in> set valid" by (simp add: valid_list_def)
  with get_multiplicity_eq [OF v S, of c] show ?thesis by simp
qed

lemma get_class_dict_cases:
  "get_class_dict s c = Inl KeyError \<or> (\<exists>d. get_class_dict s c = Inr d)"
  by (auto simp: get_class_dict_def split: option.splits)

lemma check_class_iff:
  assumes h: "header_ok s" and c: "c \<in> set (valid_list s)" and sz: "sized_values s"
  shows "check_class s c = (if class_bad s c then Inl InvalidExtensionError else Inr ())"
proof -
  from header_ok_multiplicity [OF h c] obtain m where m: "get_multiplicity s (Some c) = Inr m"
    by blast
  show ?thesis
  proof (cases "get_class_dict s c")
    case (Inl e)
    with get_class_dict_cases [of s c] have k: "get_class_dict s c = Inl KeyError" by auto
    then have "check_class s c = Inl InvalidExtensionError"
      by (auto simp: check_class_def get_class_dict_def split: option.splits)
    with k show ?thesis by (simp add: class_bad_def)
  next
    case (Inr d)
    then have cc: "check_class s c =
        (if m = 0 \<and> length d \<noteq> 0 then Inl InvalidExtensionError
         else if m > 1 then check_lens d m else Inr ())"
      by (auto simp: check_class_def get_class_dict_def m split: option.splits)
    have szd: "1 < m \<Longrightarrow> \<forall>kv \<in> set d. val_len (snd kv) \<noteq> Inl TypeError"
      using sz c Inr m unfolding sized_values_def by blast
    show ?thesis
    proof (cases "1 < m")
      case True
      with cc check_lens_sized [OF szd [OF True], of m] Inr m show ?thesis
        by (auto simp: class_bad_def)
    next
      case False
      with cc Inr m show ?thesis by (auto simp: class_bad_def)
    qed
  qed
qed

lemma check_classes_iff:
  assumes h: "header_ok s" and sz: "sized_values s" and cs: "set cs \<subseteq> set (valid_list s)"
  shows "check_classes s cs =
           (if \<exists>c \<in> set cs. class_bad s c then Inl InvalidExtensionError else Inr ())"
  using cs
proof (induction cs)
  case Nil
  then show ?case by simp
next
  case (Cons c cs)
  then have c: "c \<in> set (valid_list s)" by simp
  from Cons check_class_iff [OF h c sz] show ?case by auto
qed

lemma some_class_bad:
  "(\<exists>c \<in> set (valid_list s). class_bad s c)
     = (missing_dict s \<or> nonempty_at_zero s \<or> wrong_length (\<lambda>m. 1 < m) s)"
  unfolding class_bad_def missing_dict_def nonempty_at_zero_def wrong_length_def by blast

lemma check_valid_header:
  "\<not> header_ok s \<Longrightarrow> check_valid s = Inl InvalidExtensionError"
  by (auto simp: header_ok_def check_valid_def)

lemma check_valid_body:
  assumes h: "header_ok s" and sz: "sized_values s"
  shows "check_valid s =
     (if (\<exists>c \<in> set (valid_list s). class_bad s c) \<or> duplicate_key s
      then Inl InvalidExtensionError else Inr ())"
proof -
  from header_ok_valid [OF h] obtain valid where v: "get_valid_classes s = Inr valid" by blast
  then have vl: "valid_list s = valid" by (simp add: valid_list_def)
  have cc: "check_classes s valid =
           (if \<exists>c \<in> set valid. class_bad s c then Inl InvalidExtensionError else Inr ())"
    using check_classes_iff [OF h sz, of valid] vl by simp
  have hd: "base_in s Global" "affine_shape_ok (affine s)" "slice_dim_ok (slice_dim s)"
       "3 \<le> length (shape s)" "length (shape s) < 6"
    using h by (simp_all add: header_ok_def)
  show ?thesis
    using hd by (auto simp: check_valid_def v vl cc duplicate_key_def list_ex_iff)
qed


lemma store_dup_valid_list: "valid_list store_dup = [(Global, Const), (Global, Slices)]"
  by (simp add: valid_list_def get_valid_classes_def store_dup_def classifications_def)


lemma store_len1_valid: "get_valid_classes store_len1 = Inr classifications"
  by (simp add: get_valid_classes_def store_len1_def)


subsection \<open>Merging constants along the time axis\<close>

lemma slice_normal_total:
  assumes "affine_shape_ok (affine s)" "slice_dim_ok (slice_dim s)"
  shows "\<exists>n. slice_normal s = Inr n"
  using assms
  by (auto simp: slice_normal_def affine_shape_ok_def slice_dim_ok_def py_index_def
           split: option.splits)

lemma slice_normal_cong:
  "affine s = affine t \<Longrightarrow> slice_dim s = slice_dim t \<Longrightarrow> slice_normal s = slice_normal t"
  by (simp add: slice_normal_def cong: option.case_cong)

lemmas ev_defs =
  get_valid_classes_def classifications_def
  seed_class_def set_shape_def add_input_def
  insert_ext_def get_keys_def insert_class_def reclassify_key_def get_classification_def
  insert_key_def insert_sample_def get_values_and_class_def dict_get_def get_changed_class_def
  change_class_def preserving_changes_def class_in_def get_multiplicity_def floor_div_def
  set_item_def del_item_def get_values_def extend_values_def val_extend_def val_items_def
  py_index_def simplify_def base_in_empty gcd_put gcd_empty

lemma seed_echo:
  "foldE (seed_class (echo_store [x, y, z] aff sd v) u) [(Global, Const), (Global, Slices)]
      (empty_ext [x, y, z, 3] aff sd) = Inr (echo_store [x, y, z, 3] aff sd v)"
proof -
  have "get_class_dict (echo_store [x, y, z, 3] aff sd v) (Global, Slices) = Inr []"
    by (simp add: echo_store_def gcd_put gcd_empty)
  from put_same [OF this] show ?thesis
    by (simp add: seed_class_def echo_store_def gcd_put gcd_empty base_in_empty)
qed

lemma echo_valid3:
  "get_valid_classes (echo_store [x, y, z] aff sd v) = Inr [(Global, Const), (Global, Slices)]"
  by (simp add: get_valid_classes_def classifications_def echo_store_def)

lemma echo_valid4:
  "get_valid_classes ((echo_store [x, y, z, n] aff sd v)\<lparr>shape := [x, y, z, t]\<rparr>)
     = Inr [(Global, Const), (Global, Slices), (Time, Samples), (Time, Slices)]"
  by (simp add: get_valid_classes_def classifications_def echo_store_def)

lemma slice_dim_ok_not3: "slice_dim_ok sd \<Longrightarrow> (Some 3 = sd) = False"
  by (auto simp: slice_dim_ok_def)

lemma insert_same:
  assumes "slice_normal (echo_store [x, y, z] aff sd v) = Inr n1"
      and "slice_normal ((echo_store [x, y, z, 3] aff sd v)\<lparr>shape := [x, y, z, t]\<rparr>) = Inr n2"
      and "allclose n1 n2 = Inr u" and sd: "slice_dim_ok sd"
  shows "add_input allclose 3 (echo_store [x, y, z] aff sd v)
           ((echo_store [x, y, z, 3] aff sd v)\<lparr>shape := [x, y, z, t]\<rparr>)
         = Inr ((echo_store [x, y, z, 3] aff sd v)\<lparr>shape := [x, y, z, t + 1]\<rparr>)"
  apply (simp add: add_input_def insert_ext_def assms get_keys_def echo_valid3 echo_valid4)
  apply (simp add: echo_store_def ev_defs slice_dim_ok_not3 [OF sd])
  done

lemma foldE_Nil: "foldE f [] s = Inr s"
  by simp

lemma foldE_single: "foldE f [x] s = f x s"
  by (cases "f x s") simp_all

lemma replicate_two: "replicate 2 x = [x, x]"
  by (simp add: numeral_2_eq_2)

lemma insert_other:
  assumes "slice_normal (echo_store [x, y, z] aff sd w) = Inr n1"
      and "slice_normal ((echo_store [x, y, z, 3] aff sd v)\<lparr>shape := [x, y, z, 2]\<rparr>) = Inr n2"
      and "allclose n1 n2 = Inr u" and sd: "slice_dim_ok sd" and "v \<noteq> w"
  shows "add_input allclose 3 (echo_store [x, y, z] aff sd w)
           ((echo_store [x, y, z, 3] aff sd v)\<lparr>shape := [x, y, z, 2]\<rparr>)
         = Inr ((merged_b [x, y, z, 3] aff sd v w)\<lparr>shape := [x, y, z, 3]\<rparr>)"
  apply (simp add: add_input_def insert_ext_def assms get_keys_def echo_valid3 echo_valid4)
  apply (simp add: echo_store_def ev_defs slice_dim_ok_not3 [OF sd] assms merged_b_def
                   replicate_two)
  done

lemma from_sequence_echo:
  assumes aff: "affine_shape_ok aff" and sd: "slice_dim_ok sd"
      and close: "\<forall>a b. \<exists>u. allclose a b = Inr u"
  shows "from_sequence allclose
               [echo_store [x, y, z] aff sd 5, echo_store [x, y, z] aff sd 5,
                echo_store [x, y, z] aff sd 10] 3 None None
         = Inr ((merged_b [x, y, z, 3] aff sd 5 10)\<lparr>shape := [x, y, z, 3]\<rparr>)"
proof -
  obtain n where n: "slice_normal (empty_ext [x, y, z, 3] aff sd) = Inr n"
    using slice_normal_total [of "empty_ext [x, y, z, 3] aff sd"] aff sd by auto
  have sn: "slice_normal s = Inr n" if "affine s = aff" "slice_dim s = sd" for s
  proof -
    have "slice_normal s = slice_normal (empty_ext [x, y, z, 3] aff sd)"
      by (rule slice_normal_cong) (simp_all add: that)
    with n show ?thesis by simp
  qed
  from close obtain u where u: "allclose n n = Inr u" by blast
  have nI: "\<And>v. slice_normal (echo_store [x, y, z] aff sd v) = Inr n"
    by (rule sn) (simp_all add: echo_store_def)
  have nR: "\<And>t. slice_normal ((echo_store [x, y, z, 3] aff sd 5)\<lparr>shape := [x, y, z, t]\<rparr>) = Inr n"
    by (rule sn) (simp_all add: echo_store_def)
  have s2: "add_input allclose 3 (echo_store [x, y, z] aff sd 5)
              ((echo_store [x, y, z, 3] aff sd 5)\<lparr>shape := [x, y, z, 1]\<rparr>)
            = Inr ((echo_store [x, y, z, 3] aff sd 5)\<lparr>shape := [x, y, z, 2]\<rparr>)"
    using insert_same [where allclose = allclose and t = 1 and v = 5, OF nI nR u sd] by simp
  have s3: "add_input allclose 3 (echo_store [x, y, z] aff sd 10)
              ((echo_store [x, y, z, 3] aff sd 5)\<lparr>shape := [x, y, z, 2]\<rparr>)
            = Inr ((merged_b [x, y, z, 3] aff sd 5 10)\<lparr>shape := [x, y, z, 3]\<rparr>)"
    using insert_other [where allclose = allclose and v = 5 and w = 10, OF nI nR u sd] by simp
  have fin: "get_class_dict (merged_b [x, y, z, 3] aff sd 5 10) (Global, Slices) = Inr []"
    by (simp add: merged_b_def echo_store_def gcd_put gcd_empty)
  have sh: "set_shape (echo_store [x, y, z, 3] aff sd 5) [x, y, z, 1]
             = Inr ((echo_store [x, y, z, 3] aff sd 5)\<lparr>shape := [x, y, z, 1]\<rparr>)"
    by (simp add: set_shape_def)
  have shp: "shape (echo_store [x, y, z, 3] aff sd 5) = [x, y, z, 3]"
    by (simp add: echo_store_def)
  have shp3: "shape (echo_store [x, y, z] aff sd 5) = [x, y, z]"
    by (simp add: echo_store_def)
  have sel: "affine (echo_store [x, y, z] aff sd 5) = aff"
            "slice_dim (echo_store [x, y, z] aff sd 5) = sd"
    by (simp_all add: echo_store_def)
  have s23: "foldE (add_input allclose 3)
               [echo_store [x, y, z] aff sd 5, echo_store [x, y, z] aff sd 10]
               ((echo_store [x, y, z, 3] aff sd 5)\<lparr>shape := [x, y, z, 1]\<rparr>)
             = Inr ((merged_b [x, y, z, 3] aff sd 5 10)\<lparr>shape := [x, y, z, 3]\<rparr>)"
    by (simp add: s2 s3)
  show ?thesis
    using aff sd
    by (simp add: from_sequence_def Let_def shp3 sel make_empty_eq n nI u
                  echo_valid3 seed_echo shp sh s23 fin foldE_Nil del: foldE.simps)
qed




subsection \<open>The check of the inputs of a merge\<close>

lemma slice_normal_empty2:
  "slice_normal (empty_ext shp identity_affine (Some 2)) = Inr (Some [0, 0, 1])"
  by (simp add: slice_normal_def py_index_def identity_affine_def py_slice_def slice_bound_def)

lemma slice_normal_shape_upd [simp]: "slice_normal (s\<lparr>shape := x\<rparr>) = slice_normal s"
  by (simp add: slice_normal_def cong: option.case_cong)

text \<open>
  Claim C8 fails on the code: only the first input is checked. The second input below has
  size 2 along axis 3, and the merge returns a store instead of raising.
\<close>

theorem from_sequence_second_input_unchecked:
  "shape (empty_ext [2, 2, 2, 2] identity_affine (Some 2)) ! 3 = 2
   \<and> from_sequence allclose_true
        [empty_ext [2, 2, 2] identity_affine (Some 2),
         empty_ext [2, 2, 2, 2] identity_affine (Some 2)] 3 None None
       = Inr ((empty_ext [2, 2, 2, 2] identity_affine (Some 2)))"
proof -
  let ?A = "empty_ext [2, 2, 2] identity_affine (Some 2)"
  let ?B = "empty_ext [2, 2, 2, 2] identity_affine (Some 2)"
  have seed: "foldE (seed_class ?A True) [(Global, Const), (Global, Slices)] ?B = Inr ?B"
    by (simp add: seed_class_def gcd_empty base_in_empty put_same)
  have ins: "add_input allclose_true 3 ?B (?B\<lparr>shape := [2, 2, 2, 1]\<rparr>) = Inr (?B\<lparr>shape := [2, 2, 2, 2]\<rparr>)"
    by (simp add: add_input_def insert_ext_def slice_normal_empty2 allclose_true_def get_keys_def
          get_valid_classes_def classifications_def gcd_empty insert_class_def set_shape_def)
  have same: "?B\<lparr>shape := [2, 2, 2, 2]\<rparr> = ?B" by (simp add: empty_ext_def)
  show ?thesis
    by (simp add: from_sequence_def Let_def make_empty_eq slice_normal_empty2 allclose_true_def
          slice_dim_ok_def get_valid_classes_def classifications_def seed set_shape_def ins same
          gcd_empty foldE_Nil foldE_single del: foldE.simps)
qed

end
